theory Spec2Isabelle
  imports Main "HOL-Library.Char_ord" "HOL-Library.List_Lexorder"
begin

section \<open>Strings\<close>

text \<open>
  A Go string is a sequence of bytes; \<^typ>\<open>string\<close> is a list of 8-bit characters, so
  the two agree byte for byte. The functions of package \<^verbatim>\<open>strings\<close> that
  \<^verbatim>\<open>client.go\<close> and \<^verbatim>\<open>net/url\<close> call are written out here. Every call in the
  modelled code that splits or cuts passes a one-byte separator ("@", "#", "?", "/", ":",
  "]"), so those take a \<^typ>\<open>char\<close>; the ones that search for a longer text take a string.
\<close>

fun HasPrefix :: "string \<Rightarrow> string \<Rightarrow> bool" where
  "HasPrefix s [] = True"
| "HasPrefix [] (p # ps) = False"
| "HasPrefix (c # s) (p # ps) = (c = p \<and> HasPrefix s ps)"

text \<open>\<^verbatim>\<open>strings.Index(s, sub)\<close>: the first position of \<open>sub\<close>, \<open>None\<close> for Go's -1.\<close>

fun Index :: "string \<Rightarrow> string \<Rightarrow> nat option" where
  "Index [] sub = (if sub = [] then Some 0 else None)"
| "Index (c # s) sub =
     (if HasPrefix (c # s) sub then Some 0 else map_option Suc (Index s sub))"

definition Contains :: "string \<Rightarrow> string \<Rightarrow> bool" where
  "Contains s sub = (Index s sub \<noteq> None)"

text \<open>\<^verbatim>\<open>strings.Cut(s, sep)\<close>: the text before and after the first \<open>sep\<close>, and whether
  \<open>sep\<close> was found; without it, all of \<open>s\<close> and the empty string.\<close>

definition Cut :: "string \<Rightarrow> char \<Rightarrow> string \<times> string \<times> bool" where
  "Cut s sep =
     (if sep \<in> set s
      then (takeWhile (\<lambda>c. c \<noteq> sep) s, tl (dropWhile (\<lambda>c. c \<noteq> sep) s), True)
      else (s, [], False))"

text \<open>\<^verbatim>\<open>strings.SplitN(s, sep, n)\<close> for \<open>n \<ge> 0\<close>: no piece for \<open>n = 0\<close>, at most \<open>n\<close> pieces
  otherwise, the last one the unsplit rest.\<close>

fun SplitN :: "string \<Rightarrow> char \<Rightarrow> nat \<Rightarrow> string list" where
  "SplitN s sep 0 = []"
| "SplitN s sep (Suc 0) = [s]"
| "SplitN s sep (Suc (Suc n)) =
     (if sep \<in> set s
      then takeWhile (\<lambda>c. c \<noteq> sep) s # SplitN (tl (dropWhile (\<lambda>c. c \<noteq> sep) s)) sep (Suc n)
      else [s])"

definition HasSuffix :: "string \<Rightarrow> string \<Rightarrow> bool" where
  "HasSuffix s suffix = HasPrefix (rev s) (rev suffix)"

text \<open>\<^verbatim>\<open>strings.Count(s, sep)\<close> for a one-byte \<open>sep\<close>.\<close>

definition Count :: "string \<Rightarrow> char \<Rightarrow> nat" where
  "Count s sep = length (filter (\<lambda>c. c = sep) s)"

text \<open>\<^verbatim>\<open>strings.LastIndex(s, sep)\<close> for a one-byte \<open>sep\<close>, \<open>None\<close> for Go's -1.\<close>

fun LastIndex :: "string \<Rightarrow> char \<Rightarrow> nat option" where
  "LastIndex [] sep = None"
| "LastIndex (c # s) sep =
     (case LastIndex s sep of
        Some i \<Rightarrow> Some (Suc i)
      | None \<Rightarrow> if c = sep then Some 0 else None)"

text \<open>The test \<^verbatim>\<open>lo <= c && c <= hi\<close> on a byte.\<close>

definition inRange :: "char \<Rightarrow> char \<Rightarrow> char \<Rightarrow> bool" where
  "inRange c lo hi = (lo \<le> c \<and> c \<le> hi)"

text \<open>ASCII lower-casing. \<^verbatim>\<open>net/url\<close> applies \<^verbatim>\<open>strings.ToLower\<close> to a scheme only, which
  holds ASCII letters, digits, \<open>+\<close>, \<open>-\<close> and \<open>.\<close> (see \<open>getScheme\<close>); there the two agree.\<close>

definition lowerByte :: "char \<Rightarrow> char" where
  "lowerByte c = (if inRange c (CHR ''A'') (CHR ''Z'') then char_of (of_char c + (32::nat)) else c)"

definition lowerASCII :: "string \<Rightarrow> string" where
  "lowerASCII s = map lowerByte s"

section \<open>The URL value of net/url\<close>

text \<open>\<^verbatim>\<open>url.Userinfo\<close> and \<^verbatim>\<open>url.URL\<close>, field for field. The \<^verbatim>\<open>User\<close> pointer is an
  option: \<open>None\<close> is Go's nil.\<close>

record Userinfo =
  username :: string
  password :: string
  passwordSet :: bool

record URL =
  Scheme :: string
  Opaque :: string
  User :: "Userinfo option"
  Host :: string
  Path :: string
  RawPath :: string
  OmitHost :: bool
  ForceQuery :: bool
  RawQuery :: string
  Fragment :: string
  RawFragment :: string

text \<open>\<^verbatim>\<open>type Resource url.URL\<close>\<close>

type_synonym Resource = URL

text \<open>The zero value \<^verbatim>\<open>URL{}\<close>.\<close>

definition URL0 :: URL where
  "URL0 = \<lparr>Scheme = [], Opaque = [], User = None, Host = [], Path = [], RawPath = [],
     OmitHost = False, ForceQuery = False, RawQuery = [], Fragment = [], RawFragment = []\<rparr>"

section \<open>Errors\<close>

text \<open>The errors \<^verbatim>\<open>net/url\<close> creates while parsing, each with the text it carries.\<close>

datatype url_error =
    InvalidControlCharacter
  | EmptyURL
  | MissingProtocolScheme
  | InvalidURIForRequest
  | FirstPathSegmentColon
  | EscapeError string
  | InvalidHostError string
  | MissingBracket
  | InvalidPort string
  | InvalidUserinfo

text \<open>
  The error values of a lookup: \<^verbatim>\<open>*url.Error{"parse", URL, Err}\<close> of \<^verbatim>\<open>url.Parse\<close>; the
  \<^verbatim>\<open>fmt.Errorf("URL must be absolute, or an email address: %v", rawurl)\<close> of \<^verbatim>\<open>Parse\<close>;
  the error the HTTP client returned, by its text; \<^verbatim>\<open>errors.New(res.Status)\<close>; the error
  of reading the body; the error of decoding the document.
\<close>

datatype error =
    ParseError string url_error
  | MalformedIdentifier string
  | TransportError string
  | StatusError string
  | ReadError string
  | DecodeError string

section \<open>Escaping in net/url\<close>

datatype encoding =
    encodePath
  | encodePathSegment
  | encodeHost
  | encodeZone
  | encodeUserPassword
  | encodeQueryComponent
  | encodeFragment

definition ishex :: "char \<Rightarrow> bool" where
  "ishex c =
     (inRange c (CHR ''0'') (CHR ''9'') \<or> inRange c (CHR ''a'') (CHR ''f'')
      \<or> inRange c (CHR ''A'') (CHR ''F''))"

definition unhex :: "char \<Rightarrow> nat" where
  "unhex c =
     (if inRange c (CHR ''0'') (CHR ''9'') then of_char c - 48
      else if inRange c (CHR ''a'') (CHR ''f'') then of_char c - 97 + 10
      else if inRange c (CHR ''A'') (CHR ''F'') then of_char c - 65 + 10
      else 0)"

text \<open>\<^verbatim>\<open>unhex(a)<<4 | unhex(b)\<close>\<close>

definition unhex2 :: "char \<Rightarrow> char \<Rightarrow> char" where
  "unhex2 a b = char_of (unhex a * 16 + unhex b)"

text \<open>\<^verbatim>\<open>func shouldEscape(c byte, mode encoding) bool\<close>, case by case in the order of the
  source. The single and the double quote are written by their codes 0x27 and 0x22.\<close>

definition shouldEscape :: "char \<Rightarrow> encoding \<Rightarrow> bool" where
  "shouldEscape c mode =
     (if inRange c (CHR ''a'') (CHR ''z'') \<or> inRange c (CHR ''A'') (CHR ''Z'')
         \<or> inRange c (CHR ''0'') (CHR ''9'') then False
      else if (mode = encodeHost \<or> mode = encodeZone)
         \<and> c \<in> set (CHR 0x27 # CHR 0x22 # ''!$&()*+,;=:[]<>'') then False
      else if c \<in> set ''-_.~'' then False
      else if c \<in> set ''$&+,/:;=?@'' \<and> mode = encodePath then c = CHR ''?''
      else if c \<in> set ''$&+,/:;=?@'' \<and> mode = encodePathSegment
        then c = CHR ''/'' \<or> c = CHR '';'' \<or> c = CHR '','' \<or> c = CHR ''?''
      else if c \<in> set ''$&+,/:;=?@'' \<and> mode = encodeUserPassword
        then c = CHR ''@'' \<or> c = CHR ''/'' \<or> c = CHR ''?'' \<or> c = CHR '':''
      else if c \<in> set ''$&+,/:;=?@'' \<and> mode = encodeQueryComponent then True
      else if c \<in> set ''$&+,/:;=?@'' \<and> mode = encodeFragment then False
      else if mode = encodeFragment \<and> c \<in> set ''!()*'' then False
      else True)"

text \<open>
  \<^verbatim>\<open>func unescape(s string, mode encoding) (string, error)\<close>. Its first loop checks
  every escape and counts them: \<open>unescape_scan\<close> gives the error, or the count \<open>n\<close> and
  \<open>hasPlus\<close>. Its second loop writes the result: \<open>unescape_build\<close>, which is only run
  on a string the first loop accepted.
\<close>

fun unescape_scan :: "string \<Rightarrow> encoding \<Rightarrow> url_error + nat \<times> bool" where
  "unescape_scan [] mode = Inr (0, False)"
| "unescape_scan (c # s) mode =
     (if c = CHR ''%'' then
        (if length s < 2 \<or> \<not> ishex (s ! 0) \<or> \<not> ishex (s ! 1)
           then Inl (EscapeError (take 3 (c # s)))
         else if mode = encodeHost \<and> unhex (s ! 0) < 8 \<and> take 3 (c # s) \<noteq> ''%25''
           then Inl (EscapeError (take 3 (c # s)))
         else if mode = encodeZone \<and> take 3 (c # s) \<noteq> ''%25''
             \<and> unhex2 (s ! 0) (s ! 1) \<noteq> CHR '' ''
             \<and> shouldEscape (unhex2 (s ! 0) (s ! 1)) encodeHost
           then Inl (EscapeError (take 3 (c # s)))
         else (case unescape_scan (drop 2 s) mode of
                 Inl e \<Rightarrow> Inl e
               | Inr (n, hasPlus) \<Rightarrow> Inr (Suc n, hasPlus)))
      else if c = CHR ''+'' then
        (case unescape_scan s mode of
           Inl e \<Rightarrow> Inl e
         | Inr (n, hasPlus) \<Rightarrow> Inr (n, mode = encodeQueryComponent))
      else if (mode = encodeHost \<or> mode = encodeZone) \<and> c < CHR 0x80
          \<and> shouldEscape c encodeHost
        then Inl (InvalidHostError [c])
      else unescape_scan s mode)"

fun unescape_build :: "string \<Rightarrow> encoding \<Rightarrow> string" where
  "unescape_build [] mode = []"
| "unescape_build (c # s) mode =
     (if c = CHR ''%'' then unhex2 (s ! 0) (s ! 1) # unescape_build (drop 2 s) mode
      else if c = CHR ''+'' then
        (if mode = encodeQueryComponent then CHR '' '' else CHR ''+'') # unescape_build s mode
      else c # unescape_build s mode)"

definition unescape :: "string \<Rightarrow> encoding \<Rightarrow> url_error + string" where
  "unescape s mode =
     (case unescape_scan s mode of
        Inl e \<Rightarrow> Inl e
      | Inr (n, hasPlus) \<Rightarrow>
          if n = 0 \<and> \<not> hasPlus then Inr s else Inr (unescape_build s mode))"

definition upperhex :: string where
  "upperhex = ''0123456789ABCDEF''"

text \<open>What the second loop of \<^verbatim>\<open>escape\<close> writes for one byte.\<close>

definition escape_byte :: "encoding \<Rightarrow> char \<Rightarrow> string" where
  "escape_byte mode c =
     (if c = CHR '' '' \<and> mode = encodeQueryComponent then ''+''
      else if shouldEscape c mode
        then [CHR ''%'', upperhex ! (of_char c div 16), upperhex ! (of_char c mod 16)]
      else [c])"

text \<open>\<^verbatim>\<open>func escape(s string, mode encoding) string\<close>: the string itself when the first loop
  counts no byte to escape.\<close>

definition escape :: "string \<Rightarrow> encoding \<Rightarrow> string" where
  "escape s mode =
     (if list_all (\<lambda>c. \<not> shouldEscape c mode) s then s
      else concat (map (escape_byte mode) s))"

definition QueryEscape :: "string \<Rightarrow> string" where
  "QueryEscape s = escape s encodeQueryComponent"

text \<open>\<^verbatim>\<open>func validEncoded(s string, mode encoding) bool\<close>\<close>

definition validEncoded :: "string \<Rightarrow> encoding \<Rightarrow> bool" where
  "validEncoded s mode =
     list_all (\<lambda>c. c \<in> set (CHR 0x27 # ''!$&()*+,;=:@[]%'') \<or> \<not> shouldEscape c mode) s"

section \<open>Parsing in net/url\<close>

text \<open>
  \<^verbatim>\<open>func getScheme(rawURL string) (scheme, path string, err error)\<close>. The loop runs over
  the bytes of \<open>rawURL\<close>; \<open>pre\<close> is \<^verbatim>\<open>rawURL[:i]\<close>, so \<^verbatim>\<open>i == 0\<close> is \<open>pre = []\<close>.
\<close>

fun getScheme_loop :: "string \<Rightarrow> string \<Rightarrow> string \<Rightarrow> url_error + string \<times> string" where
  "getScheme_loop rawURL pre [] = Inr ([], rawURL)"
| "getScheme_loop rawURL pre (c # s) =
     (if inRange c (CHR ''a'') (CHR ''z'') \<or> inRange c (CHR ''A'') (CHR ''Z'')
        then getScheme_loop rawURL (pre @ [c]) s
      else if inRange c (CHR ''0'') (CHR ''9'') \<or> c = CHR ''+'' \<or> c = CHR ''-'' \<or> c = CHR ''.''
        then (if pre = [] then Inr ([], rawURL) else getScheme_loop rawURL (pre @ [c]) s)
      else if c = CHR '':''
        then (if pre = [] then Inl MissingProtocolScheme else Inr (pre, s))
      else Inr ([], rawURL))"

definition getScheme :: "string \<Rightarrow> url_error + string \<times> string" where
  "getScheme rawURL = getScheme_loop rawURL [] rawURL"

definition stringContainsCTLByte :: "string \<Rightarrow> bool" where
  "stringContainsCTLByte s = list_ex (\<lambda>b. b < CHR '' '' \<or> b = CHR 0x7F) s"

text \<open>\<^verbatim>\<open>func validOptionalPort(port string) bool\<close>\<close>

definition validOptionalPort :: "string \<Rightarrow> bool" where
  "validOptionalPort port =
     (case port of
        [] \<Rightarrow> True
      | c # ds \<Rightarrow> c = CHR '':'' \<and> list_all (\<lambda>b. \<not> (b < CHR ''0'' \<or> CHR ''9'' < b)) ds)"

text \<open>\<^verbatim>\<open>func validUserinfo(s string) bool\<close>. The source ranges over runes; a rune outside
  ASCII is never accepted, and every byte of one is at least 0x80, so the test byte by
  byte gives the same answer.\<close>

definition validUserinfo :: "string \<Rightarrow> bool" where
  "validUserinfo s =
     list_all (\<lambda>r. inRange r (CHR ''A'') (CHR ''Z'') \<or> inRange r (CHR ''a'') (CHR ''z'')
        \<or> inRange r (CHR ''0'') (CHR ''9'')
        \<or> r \<in> set (CHR 0x27 # ''-._:~!$&()*+,;=%@'')) s"

text \<open>\<^verbatim>\<open>func parseHost(host string) (string, error)\<close>\<close>

definition parseHost :: "string \<Rightarrow> url_error + string" where
  "parseHost host =
     (if HasPrefix host ''['' then
        (case LastIndex host (CHR '']'') of
           None \<Rightarrow> Inl MissingBracket
         | Some i \<Rightarrow>
             (let colonPort = drop (Suc i) host in
              if \<not> validOptionalPort colonPort then Inl (InvalidPort colonPort)
              else (case Index (take i host) ''%25'' of
                      Some zone \<Rightarrow>
                        (case unescape (take zone host) encodeHost of
                           Inl e \<Rightarrow> Inl e
                         | Inr host1 \<Rightarrow>
                        (case unescape (drop zone (take i host)) encodeZone of
                           Inl e \<Rightarrow> Inl e
                         | Inr host2 \<Rightarrow>
                        (case unescape (drop i host) encodeHost of
                           Inl e \<Rightarrow> Inl e
                         | Inr host3 \<Rightarrow> Inr (host1 @ host2 @ host3))))
                    | None \<Rightarrow> unescape host encodeHost)))
      else
        (case LastIndex host (CHR '':'') of
           Some i \<Rightarrow>
             (let colonPort = drop i host in
              if \<not> validOptionalPort colonPort then Inl (InvalidPort colonPort)
              else unescape host encodeHost)
         | None \<Rightarrow> unescape host encodeHost))"

text \<open>\<^verbatim>\<open>func parseAuthority(authority string) (user *Userinfo, host string, err error)\<close>.
  \<^verbatim>\<open>User(u)\<close> and \<^verbatim>\<open>UserPassword(u, p)\<close> are the two records built below.\<close>

definition parseAuthority :: "string \<Rightarrow> url_error + Userinfo option \<times> string" where
  "parseAuthority authority =
     (let i = LastIndex authority (CHR ''@'') in
      case (case i of None \<Rightarrow> parseHost authority
                    | Some k \<Rightarrow> parseHost (drop (Suc k) authority)) of
        Inl e \<Rightarrow> Inl e
      | Inr host \<Rightarrow>
          (case i of
             None \<Rightarrow> Inr (None, host)
           | Some k \<Rightarrow>
               (let userinfo = take k authority in
                if \<not> validUserinfo userinfo then Inl InvalidUserinfo
                else if CHR '':'' \<notin> set userinfo then
                  (case unescape userinfo encodeUserPassword of
                     Inl e \<Rightarrow> Inl e
                   | Inr name \<Rightarrow>
                       Inr (Some \<lparr>username = name, password = [], passwordSet = False\<rparr>, host))
                else
                  (case Cut userinfo (CHR '':'') of (username0, password0, found) \<Rightarrow>
                     (case unescape username0 encodeUserPassword of
                        Inl e \<Rightarrow> Inl e
                      | Inr name \<Rightarrow>
                     (case unescape password0 encodeUserPassword of
                        Inl e \<Rightarrow> Inl e
                      | Inr pass \<Rightarrow>
                          Inr (Some \<lparr>username = name, password = pass, passwordSet = True\<rparr>,
                               host)))))))"

text \<open>\<^verbatim>\<open>func (u *URL) setPath(p string) error\<close> and
  \<^verbatim>\<open>func (u *URL) setFragment(f string) error\<close>, returning the updated URL.\<close>

definition setPath :: "URL \<Rightarrow> string \<Rightarrow> url_error + URL" where
  "setPath u p =
     (case unescape p encodePath of
        Inl e \<Rightarrow> Inl e
      | Inr path \<Rightarrow>
          Inr (u\<lparr>Path := path, RawPath := (if p = escape path encodePath then [] else p)\<rparr>))"

definition setFragment :: "URL \<Rightarrow> string \<Rightarrow> url_error + URL" where
  "setFragment u f =
     (case unescape f encodeFragment of
        Inl e \<Rightarrow> Inl e
      | Inr frag \<Rightarrow>
          Inr (u\<lparr>Fragment := frag,
                 RawFragment := (if f = escape frag encodeFragment then [] else f)\<rparr>))"

text \<open>
  \<^verbatim>\<open>func parse(rawURL string, viaRequest bool) (*URL, error)\<close>. \<open>parse_authority_path\<close>
  is its last part, from the test for a leading \<^verbatim>\<open>//\<close> to the end: the authority, the
  \<^verbatim>\<open>OmitHost\<close> flag and the path.
\<close>

definition parse_authority_path :: "URL \<Rightarrow> string \<Rightarrow> bool \<Rightarrow> url_error + URL" where
  "parse_authority_path url rest viaRequest =
     (if (Scheme url \<noteq> [] \<or> \<not> viaRequest \<and> \<not> HasPrefix rest ''///'') \<and> HasPrefix rest ''//''
      then
        (let authority0 = drop 2 rest in
         case (case Index authority0 ''/'' of
                 Some i \<Rightarrow> (take i authority0, drop i authority0)
               | None \<Rightarrow> (authority0, [])) of
           (authority, rest') \<Rightarrow>
             (case parseAuthority authority of
                Inl e \<Rightarrow> Inl e
              | Inr (user, host) \<Rightarrow> setPath (url\<lparr>User := user, Host := host\<rparr>) rest'))
      else if Scheme url \<noteq> [] \<and> HasPrefix rest ''/''
        then setPath (url\<lparr>OmitHost := True\<rparr>) rest
      else setPath url rest)"

definition parse :: "string \<Rightarrow> bool \<Rightarrow> url_error + URL" where
  "parse rawURL viaRequest =
     (if stringContainsCTLByte rawURL then Inl InvalidControlCharacter
      else if rawURL = [] \<and> viaRequest then Inl EmptyURL
      else if rawURL = ''*'' then Inr (URL0\<lparr>Path := ''*''\<rparr>)
      else
        (case getScheme rawURL of
           Inl e \<Rightarrow> Inl e
         | Inr (scheme, rest0) \<Rightarrow>
             (let url0 = URL0\<lparr>Scheme := lowerASCII scheme\<rparr> in
              case (if HasSuffix rest0 ''?'' \<and> Count rest0 (CHR ''?'') = 1
                    then (butlast rest0, url0\<lparr>ForceQuery := True\<rparr>)
                    else (case Cut rest0 (CHR ''?'') of
                            (r, q, found) \<Rightarrow> (r, url0\<lparr>RawQuery := q\<rparr>))) of
                (rest, url) \<Rightarrow>
                  if \<not> HasPrefix rest ''/'' then
                    (if Scheme url \<noteq> [] then Inr (url\<lparr>Opaque := rest\<rparr>)
                     else if viaRequest then Inl InvalidURIForRequest
                     else if CHR '':'' \<in> set (fst (Cut rest (CHR ''/'')))
                       then Inl FirstPathSegmentColon
                     else parse_authority_path url rest viaRequest)
                  else parse_authority_path url rest viaRequest)))"

text \<open>\<^verbatim>\<open>func Parse(rawURL string) (*URL, error)\<close> of \<^verbatim>\<open>net/url\<close>.\<close>

definition url_Parse :: "string \<Rightarrow> error + URL" where
  "url_Parse rawURL =
     (case Cut rawURL (CHR ''#'') of
        (u, frag, found) \<Rightarrow>
          (case parse u False of
             Inl err \<Rightarrow> Inl (ParseError u err)
           | Inr url \<Rightarrow>
               if frag = [] then Inr url
               else (case setFragment url frag of
                       Inl err \<Rightarrow> Inl (ParseError rawURL err)
                     | Inr url' \<Rightarrow> Inr url')))"

section \<open>Printing in net/url\<close>

text \<open>\<^verbatim>\<open>func (u *Userinfo) String() string\<close>, for a non-nil receiver.\<close>

definition Userinfo_String :: "Userinfo \<Rightarrow> string" where
  "Userinfo_String ui =
     escape (username ui) encodeUserPassword
     @ (if passwordSet ui then '':'' @ escape (password ui) encodeUserPassword else [])"

text \<open>\<^verbatim>\<open>func (u *URL) EscapedPath() string\<close> and \<^verbatim>\<open>func (u *URL) EscapedFragment() string\<close>\<close>

definition EscapedPath :: "URL \<Rightarrow> string" where
  "EscapedPath u =
     (if RawPath u \<noteq> [] \<and> validEncoded (RawPath u) encodePath
         \<and> unescape (RawPath u) encodePath = Inr (Path u) then RawPath u
      else if Path u = ''*'' then ''*''
      else escape (Path u) encodePath)"

definition EscapedFragment :: "URL \<Rightarrow> string" where
  "EscapedFragment u =
     (if RawFragment u \<noteq> [] \<and> validEncoded (RawFragment u) encodeFragment
         \<and> unescape (RawFragment u) encodeFragment = Inr (Fragment u) then RawFragment u
      else escape (Fragment u) encodeFragment)"

text \<open>\<^verbatim>\<open>func (u *URL) String() string\<close>. Each \<open>buf\<close> is the string builder after one more
  block of the source.\<close>

definition URL_String :: "URL \<Rightarrow> string" where
  "URL_String u =
     (let buf0 = (if Scheme u \<noteq> [] then Scheme u @ '':'' else []);
          buf1 =
            (if Opaque u \<noteq> [] then buf0 @ Opaque u
             else
               (let bufA =
                      (if Scheme u \<noteq> [] \<or> Host u \<noteq> [] \<or> User u \<noteq> None then
                         (if OmitHost u \<and> Host u = [] \<and> User u = None then buf0
                          else buf0
                            @ (if Host u \<noteq> [] \<or> Path u \<noteq> [] \<or> User u \<noteq> None then ''//'' else [])
                            @ (case User u of Some ui \<Rightarrow> Userinfo_String ui @ ''@'' | None \<Rightarrow> [])
                            @ (if Host u \<noteq> [] then escape (Host u) encodeHost else []))
                       else buf0);
                    path = EscapedPath u;
                    bufB = (if path \<noteq> [] \<and> hd path \<noteq> CHR ''/'' \<and> Host u \<noteq> []
                            then bufA @ ''/'' else bufA);
                    bufC = (if bufB = [] \<and> CHR '':'' \<in> set (fst (Cut path (CHR ''/'')))
                            then ''./'' else bufB)
                in bufC @ path));
          buf2 = (if ForceQuery u \<or> RawQuery u \<noteq> [] then buf1 @ ''?'' @ RawQuery u else buf1)
      in if Fragment u \<noteq> [] then buf2 @ ''#'' @ EscapedFragment u else buf2)"

text \<open>
  \<^verbatim>\<open>func (v Values) Encode() string\<close>. A \<^verbatim>\<open>url.Values\<close> map is given as the list of its
  keys with their values, each key once; \<open>Encode\<close> sorts the keys and writes
  \<open>key=value\<close> for every value of every key, with \<open>&\<close> between two of them.
\<close>

definition Encode_key :: "string \<Rightarrow> string \<times> string list \<Rightarrow> string" where
  "Encode_key buf kvs =
     foldl (\<lambda>b v. (if b \<noteq> [] then b @ ''&'' else b)
                    @ QueryEscape (fst kvs) @ ''='' @ QueryEscape v) buf (snd kvs)"

definition Values_Encode :: "(string \<times> string list) list \<Rightarrow> string" where
  "Values_Encode v = foldl Encode_key [] (sort_key fst v)"

section \<open>The identifier parser\<close>

text \<open>\<^verbatim>\<open>url.Parse\<close> keeps the scheme \<open>acct\<close> of a text that starts with \<open>acct:\<close>. The
  recursion of \<open>Parse\<close> below ends for this reason.\<close>

lemma setPath_Scheme: "setPath u p = Inr u' \<Longrightarrow> Scheme u' = Scheme u"
  by (auto simp add: setPath_def split: sum.splits)

lemma setFragment_Scheme: "setFragment u f = Inr u' \<Longrightarrow> Scheme u' = Scheme u"
  by (auto simp add: setFragment_def split: sum.splits)

lemma parse_authority_path_Scheme:
  "parse_authority_path u rest v = Inr u' \<Longrightarrow> Scheme u' = Scheme u"
  by (auto simp add: parse_authority_path_def Let_def dest!: setPath_Scheme
      split: if_splits sum.splits option.splits prod.splits)

lemma getScheme_acct: "getScheme (''acct:'' @ r) = Inr (''acct'', r)"
  by (simp add: getScheme_def inRange_def)

lemma Cut_acct:
  "Cut (''acct:'' @ raw) (CHR ''#'') =
     (''acct:'' @ fst (Cut raw (CHR ''#'')), snd (Cut raw (CHR ''#'')))"
  by (simp add: Cut_def)

lemma lowerASCII_acct: "lowerASCII ''acct'' = ''acct''"
  by (simp add: lowerASCII_def lowerByte_def inRange_def)

lemma parse_acct_Scheme:
  assumes "parse (''acct:'' @ r) False = Inr u"
  shows "Scheme u = ''acct''"
proof -
  have g: "getScheme (''acct:'' @ r) = Inr (''acct'', r)"
    by (rule getScheme_acct)
  show ?thesis
    using assms unfolding parse_def g
    by (auto simp add: lowerASCII_acct Let_def URL0_def
      dest!: parse_authority_path_Scheme
      split: if_splits prod.splits)
qed

lemma url_Parse_acct_Scheme:
  assumes "url_Parse (''acct:'' @ raw) = Inr u"
  shows "Scheme u = ''acct''"
proof -
  obtain a f b where c: "Cut raw (CHR ''#'') = (a, f, b)"
    by (cases "Cut raw (CHR ''#'')") auto
  have c': "Cut (''acct:'' @ raw) (CHR ''#'') = (''acct:'' @ a, f, b)"
    unfolding Cut_acct c by simp
  show ?thesis
    using assms unfolding url_Parse_def c'
    by (auto dest!: parse_acct_Scheme [simplified] setFragment_Scheme
        split: if_splits sum.splits)
qed

text \<open>\<^verbatim>\<open>func Parse(rawurl string) (*Resource, error)\<close>\<close>

function Parse :: "string \<Rightarrow> error + Resource" where
  "Parse rawurl =
     (case url_Parse rawurl of
        Inl err \<Rightarrow> Inl err
      | Inr u \<Rightarrow>
          if Scheme u = [] then
            (let parts = SplitN rawurl (CHR ''@'') 2 in
             if length parts \<noteq> 2 then Inl (MalformedIdentifier rawurl)
             else Parse (''acct:'' @ rawurl))
          else Inr u)"
  by pat_completeness auto
termination Parse
proof (relation "measure (\<lambda>raw. if (\<exists>u. url_Parse raw = Inr u \<and> Scheme u = []) then 1 else 0)")
  show "wf (measure (\<lambda>raw. if (\<exists>u. url_Parse raw = Inr u \<and> Scheme u = []) then 1 else 0))"
    by simp
next
  fix rawurl :: string and u :: URL and parts :: "string list"
  assume a: "url_Parse rawurl = Inr u" "Scheme u = []"
  have "\<not> (\<exists>v. url_Parse (''acct:'' @ rawurl) = Inr v \<and> Scheme v = [])"
    using url_Parse_acct_Scheme [of rawurl] by auto
  with a show "(''acct:'' @ rawurl, rawurl)
      \<in> measure (\<lambda>raw. if (\<exists>u. url_Parse raw = Inr u \<and> Scheme u = []) then 1 else 0)"
    by auto
qed

declare Parse.simps [simp del]

section \<open>Host resolution\<close>

text \<open>\<^verbatim>\<open>func (r *Resource) WebFingerHost() string\<close>\<close>

definition WebFingerHost :: "Resource \<Rightarrow> string" where
  "WebFingerHost r =
     (if Host r \<noteq> [] then Host r
      else if Scheme r = ''acct'' \<or> Scheme r = ''mailto'' then
        (let parts = SplitN (Opaque r) (CHR ''@'') 2
         in if length parts = 2 then parts ! 1 else [])
      else [])"

text \<open>\<^verbatim>\<open>func (r *Resource) String() string\<close>\<close>

definition Resource_String :: "Resource \<Rightarrow> string" where
  "Resource_String r = URL_String r"

section \<open>The query URL\<close>

text \<open>\<^verbatim>\<open>func (r *Resource) JRDURL(rels []string) *url.URL\<close>. The \<^verbatim>\<open>url.Values\<close> literal has
  the two keys \<open>resource\<close> and \<open>rel\<close>; every field the literal does not set is zero.\<close>

definition JRDURL :: "Resource \<Rightarrow> string list \<Rightarrow> URL" where
  "JRDURL r rels =
     URL0\<lparr>Scheme := ''https'',
          Host := WebFingerHost r,
          Path := ''/.well-known/webfinger'',
          RawQuery := Values_Encode [(''resource'', [Resource_String r]), (''rel'', rels)]\<rparr>"

section \<open>The lookup\<close>

text \<open>
  What \<open>fetchJRD\<close> reads of an \<^verbatim>\<open>http.Response\<close>: the status code, the status text, and
  the result of \<^verbatim>\<open>ioutil.ReadAll(res.Body)\<close>, the text of its error or the content.
\<close>

record Response =
  StatusCode :: int
  Status :: string
  Body :: "string + string"

text \<open>
  The effects of a lookup, in the order they happen: a line printed through a logger
  (\<open>Some l\<close> is the client's own \<^verbatim>\<open>*log.Logger\<close>, \<open>None\<close> the standard logger of package
  \<^verbatim>\<open>log\<close>) and a GET issued through the HTTP client, with its URL.
\<close>

datatype event = Log "nat option" string | HTTPGet string

text \<open>
  \<^verbatim>\<open>type Client struct\<close>. The field \<open>client\<close> stands for \<^verbatim>\<open>c.client.Get\<close>: from the URL
  and the state of the world \<open>'s\<close> it gives the text of a transport error or a response,
  and the next state. Nothing is assumed of it; two calls may answer differently.
\<close>

record 's Client =
  client :: "string \<Rightarrow> 's \<Rightarrow> (string + Response) \<times> 's"
  AllowHTTP :: bool
  Logger :: "nat option"

text \<open>\<^verbatim>\<open>func (c *Client) logf(format string, v ...interface{})\<close>, on the formatted line.\<close>

definition logf :: "'s Client \<Rightarrow> string \<Rightarrow> event" where
  "logf c line = Log (Logger c) line"

text \<open>
  \<^verbatim>\<open>func (c *Client) fetchJRD(jrdURL *url.URL) (*JRD, error)\<close>.
  \<open>fetchJRD_response\<close> is its second half, lines 194 to 204: what is done with a response
  once one was received. Two functions of other packages are parameters:
  \<open>ToLower\<close> is \<^verbatim>\<open>strings.ToLower\<close>, which lower-cases the letters of all of Unicode, and
  \<open>ParseJRD\<close> is the decoder of the descriptor document. The result comes with the effects
  and the final state of the world.
\<close>

definition fetchJRD_response :: "(string \<Rightarrow> error + 'j) \<Rightarrow> Response \<Rightarrow> error + 'j" where
  "fetchJRD_response ParseJRD res =
     (if \<not> (200 \<le> StatusCode res \<and> StatusCode res < 300) then Inl (StatusError (Status res))
      else (case Body res of
              Inl err \<Rightarrow> Inl (ReadError err)
            | Inr content \<Rightarrow> ParseJRD content))"

definition fetchJRD ::
  "(string \<Rightarrow> string) \<Rightarrow> (string \<Rightarrow> error + 'j) \<Rightarrow> 's Client \<Rightarrow> URL \<Rightarrow> 's
    \<Rightarrow> (error + 'j) \<times> event list \<times> 's" where
  "fetchJRD ToLower ParseJRD c jrdURL s =
     (let ev1 = [logf c (''GET '' @ URL_String jrdURL), HTTPGet (URL_String jrdURL)] in
      case client c (URL_String jrdURL) s of
        (Inr res, s1) \<Rightarrow> (fetchJRD_response ParseJRD res, ev1, s1)
      | (Inl err, s1) \<Rightarrow>
          (let errString = ToLower err in
           if (Contains errString ''connection refused''
               \<or> Contains errString ''ssl_certificate_error'') \<and> AllowHTTP c
           then
             (let jrdURL' = jrdURL\<lparr>Scheme := ''http''\<rparr>;
                  ev2 = [logf c (''GET '' @ URL_String jrdURL'), HTTPGet (URL_String jrdURL')] in
              case client c (URL_String jrdURL') s1 of
                (Inl err', s2) \<Rightarrow> (Inl (TransportError err'), ev1 @ ev2, s2)
              | (Inr res, s2) \<Rightarrow> (fetchJRD_response ParseJRD res, ev1 @ ev2, s2))
           else (Inl (TransportError err), ev1, s1)))"

text \<open>\<^verbatim>\<open>func (c *Client) LookupResource(resource *Resource, rels []string) (*JRD, error)\<close>,
  for a resource that is not nil. The verb \<^verbatim>\<open>%s\<close> prints the resource by its
  \<^verbatim>\<open>String\<close> method.\<close>

definition LookupResource ::
  "(string \<Rightarrow> string) \<Rightarrow> (string \<Rightarrow> error + 'j) \<Rightarrow> 's Client \<Rightarrow> Resource \<Rightarrow> string list \<Rightarrow> 's
    \<Rightarrow> (error + 'j) \<times> event list \<times> 's" where
  "LookupResource ToLower ParseJRD c resource rels s =
     (case fetchJRD ToLower ParseJRD c (JRDURL resource rels) s of
        (result, evs, s') \<Rightarrow>
          (result,
           logf c (''Looking up WebFinger data for '' @ Resource_String resource) # evs,
           s'))"

text \<open>\<^verbatim>\<open>func (c *Client) Lookup(identifier string, rels []string) (*JRD, error)\<close>\<close>

definition Lookup ::
  "(string \<Rightarrow> string) \<Rightarrow> (string \<Rightarrow> error + 'j) \<Rightarrow> 's Client \<Rightarrow> string \<Rightarrow> string list \<Rightarrow> 's
    \<Rightarrow> (error + 'j) \<times> event list \<times> 's" where
  "Lookup ToLower ParseJRD c identifier rels s =
     (case Parse identifier of
        Inl err \<Rightarrow> (Inl err, [], s)
      | Inr resource \<Rightarrow> LookupResource ToLower ParseJRD c resource rels s)"

text \<open>The GETs among the effects, in order.\<close>

fun gets :: "event list \<Rightarrow> string list" where
  "gets [] = []"
| "gets (Log l line # evs) = gets evs"
| "gets (HTTPGet url # evs) = url # gets evs"

section \<open>The descriptor document\<close>

text \<open>
  The file that declares \<^verbatim>\<open>JRD\<close>, \<^verbatim>\<open>Link\<close>, \<^verbatim>\<open>ParseJRD\<close>, \<^verbatim>\<open>GetLinkByRel\<close> and
  \<^verbatim>\<open>GetProperty\<close> is not among the sources; only its test is. This section follows
  sections 3 and 4.4 of the specification.
\<close>

text \<open>Modelled from the spec: the Link entity of section 3 (the declaration of \<^verbatim>\<open>Link\<close> is
  missing). A property is absent (\<open>None\<close>), present with a null value (\<open>Some None\<close>) or
  present with a string (\<open>Some (Some v)\<close>).\<close>

record Link =
  link_rel :: string
  link_type :: "string option"
  link_href :: "string option"
  link_template :: "string option"
  link_titles :: "string \<rightharpoonup> string"
  link_properties :: "string \<rightharpoonup> string option"

text \<open>Modelled from the spec: the Descriptor Document of section 3 (the declaration of
  \<^verbatim>\<open>JRD\<close> is missing). \<open>'t\<close> is the type of a timestamp.\<close>

record 't JRD =
  subject :: "string option"
  aliases :: "string list"
  properties :: "string \<rightharpoonup> string option"
  expires :: "'t option"
  links :: "Link list"



text \<open>Modelled from the spec: \<^verbatim>\<open>getLinkByRel(doc, rel)\<close> of section 4.4 (\<^verbatim>\<open>JRD.GetLinkByRel\<close>
  is missing): a linear scan of the links in document order that stops at the first
  one whose \<open>rel\<close> equals the argument; \<open>None\<close> is the absent result.\<close>

fun scanLinks :: "Link list \<Rightarrow> string \<Rightarrow> Link option" where
  "scanLinks [] rel = None"
| "scanLinks (l # ls) rel = (if link_rel l = rel then Some l else scanLinks ls rel)"

definition GetLinkByRel :: "'t JRD \<Rightarrow> string \<Rightarrow> Link option" where
  "GetLinkByRel doc rel = scanLinks (links doc) rel"

text \<open>A JSON value, as a JSON parser hands it over. A number keeps its text; an object
  keeps its members in the order of the document.\<close>

datatype json =
    JNull
  | JBool bool
  | JNumber string
  | JString string
  | JArray "json list"
  | JObject "(string \<times> json) list"

text \<open>
  Modelled from the spec: \<^verbatim>\<open>decode(bytes)\<close> of section 4.4 (\<^verbatim>\<open>ParseJRD\<close> is missing), on
  the JSON value. A member of the wrong shape is a decode error; a member that is not
  named in section 3 is skipped; where a name occurs twice the later member stands. A
  property value is a string or null, and null is kept as \<open>Some None\<close>.
\<close>

fun decode_properties ::
  "(string \<rightharpoonup> string option) \<Rightarrow> (string \<times> json) list \<Rightarrow> error + (string \<rightharpoonup> string option)" where
  "decode_properties m [] = Inr m"
| "decode_properties m ((k, JString v) # kvs) = decode_properties (m(k \<mapsto> Some v)) kvs"
| "decode_properties m ((k, JNull) # kvs) = decode_properties (m(k \<mapsto> None)) kvs"
| "decode_properties m ((k, v) # kvs) = Inl (DecodeError k)"

fun decode_titles ::
  "(string \<rightharpoonup> string) \<Rightarrow> (string \<times> json) list \<Rightarrow> error + (string \<rightharpoonup> string)" where
  "decode_titles m [] = Inr m"
| "decode_titles m ((k, JString v) # kvs) = decode_titles (m(k \<mapsto> v)) kvs"
| "decode_titles m ((k, v) # kvs) = Inl (DecodeError k)"

fun decode_strings :: "json list \<Rightarrow> error + string list" where
  "decode_strings [] = Inr []"
| "decode_strings (JString v # js) =
     (case decode_strings js of Inl e \<Rightarrow> Inl e | Inr vs \<Rightarrow> Inr (v # vs))"
| "decode_strings (j # js) = Inl (DecodeError ''aliases'')"

definition Link0 :: Link where
  "Link0 = \<lparr>link_rel = [], link_type = None, link_href = None, link_template = None,
     link_titles = Map.empty, link_properties = Map.empty\<rparr>"

fun decode_link_members :: "Link \<Rightarrow> bool \<Rightarrow> (string \<times> json) list \<Rightarrow> error + Link" where
  "decode_link_members l hasRel [] = (if hasRel then Inr l else Inl (DecodeError ''rel''))"
| "decode_link_members l hasRel ((k, v) # kvs) =
     (if k = ''rel'' then
        (case v of JString x \<Rightarrow> decode_link_members (l\<lparr>link_rel := x\<rparr>) True kvs
                 | _ \<Rightarrow> Inl (DecodeError k))
      else if k = ''type'' then
        (case v of JString x \<Rightarrow> decode_link_members (l\<lparr>link_type := Some x\<rparr>) hasRel kvs
                 | _ \<Rightarrow> Inl (DecodeError k))
      else if k = ''href'' then
        (case v of JString x \<Rightarrow> decode_link_members (l\<lparr>link_href := Some x\<rparr>) hasRel kvs
                 | _ \<Rightarrow> Inl (DecodeError k))
      else if k = ''template'' then
        (case v of JString x \<Rightarrow> decode_link_members (l\<lparr>link_template := Some x\<rparr>) hasRel kvs
                 | _ \<Rightarrow> Inl (DecodeError k))
      else if k = ''titles'' then
        (case v of
           JObject ts \<Rightarrow>
             (case decode_titles Map.empty ts of
                Inl e \<Rightarrow> Inl e
              | Inr m \<Rightarrow> decode_link_members (l\<lparr>link_titles := m\<rparr>) hasRel kvs)
         | _ \<Rightarrow> Inl (DecodeError k))
      else if k = ''properties'' then
        (case v of
           JObject ps \<Rightarrow>
             (case decode_properties Map.empty ps of
                Inl e \<Rightarrow> Inl e
              | Inr m \<Rightarrow> decode_link_members (l\<lparr>link_properties := m\<rparr>) hasRel kvs)
         | _ \<Rightarrow> Inl (DecodeError k))
      else decode_link_members l hasRel kvs)"

fun decode_links :: "json list \<Rightarrow> error + Link list" where
  "decode_links [] = Inr []"
| "decode_links (JObject kvs # js) =
     (case decode_link_members Link0 False kvs of
        Inl e \<Rightarrow> Inl e
      | Inr l \<Rightarrow> (case decode_links js of Inl e \<Rightarrow> Inl e | Inr ls \<Rightarrow> Inr (l # ls)))"
| "decode_links (j # js) = Inl (DecodeError ''links'')"

definition JRD0 :: "'t JRD" where
  "JRD0 = \<lparr>subject = None, aliases = [], properties = Map.empty, expires = None, links = []\<rparr>"

fun decode_members ::
  "(string \<Rightarrow> 't option) \<Rightarrow> 't JRD \<Rightarrow> (string \<times> json) list \<Rightarrow> error + 't JRD" where
  "decode_members parseTime d [] = Inr d"
| "decode_members parseTime d ((k, v) # kvs) =
     (if k = ''subject'' then
        (case v of JString x \<Rightarrow> decode_members parseTime (d\<lparr>subject := Some x\<rparr>) kvs
                 | _ \<Rightarrow> Inl (DecodeError k))
      else if k = ''aliases'' then
        (case v of
           JArray xs \<Rightarrow>
             (case decode_strings xs of
                Inl e \<Rightarrow> Inl e
              | Inr as \<Rightarrow> decode_members parseTime (d\<lparr>aliases := as\<rparr>) kvs)
         | _ \<Rightarrow> Inl (DecodeError k))
      else if k = ''properties'' then
        (case v of
           JObject ps \<Rightarrow>
             (case decode_properties Map.empty ps of
                Inl e \<Rightarrow> Inl e
              | Inr m \<Rightarrow> decode_members parseTime (d\<lparr>properties := m\<rparr>) kvs)
         | _ \<Rightarrow> Inl (DecodeError k))
      else if k = ''expires'' then
        (case v of
           JString x \<Rightarrow>
             (case parseTime x of
                None \<Rightarrow> Inl (DecodeError k)
              | Some t \<Rightarrow> decode_members parseTime (d\<lparr>expires := Some t\<rparr>) kvs)
         | _ \<Rightarrow> Inl (DecodeError k))
      else if k = ''links'' then
        (case v of
           JArray xs \<Rightarrow>
             (case decode_links xs of
                Inl e \<Rightarrow> Inl e
              | Inr ls \<Rightarrow> decode_members parseTime (d\<lparr>links := ls\<rparr>) kvs)
         | _ \<Rightarrow> Inl (DecodeError k))
      else decode_members parseTime d kvs)"

definition decode :: "(string \<Rightarrow> 't option) \<Rightarrow> json \<Rightarrow> error + 't JRD" where
  "decode parseTime j =
     (case j of
        JObject kvs \<Rightarrow> decode_members parseTime JRD0 kvs
      | _ \<Rightarrow> Inl (DecodeError ''document''))"

text \<open>Modelled from the spec: \<^verbatim>\<open>ParseJRD\<close> on the bytes of a response. The JSON parser and
  the parser of RFC3339 timestamps are parameters; bytes that are not JSON are a decode
  error.\<close>

definition ParseJRD ::
  "(string \<Rightarrow> json option) \<Rightarrow> (string \<Rightarrow> 't option) \<Rightarrow> string \<Rightarrow> error + 't JRD" where
  "ParseJRD parseJSON parseTime blob =
     (case parseJSON blob of
        None \<Rightarrow> Inl (DecodeError ''json'')
      | Some j \<Rightarrow> decode parseTime j)"



text \<open>The document of \<^verbatim>\<open>TestParseJRD\<close> as a JSON value: the members before
  \<open>properties\<close>, the properties, and the members after.\<close>

definition example_properties :: "(string \<times> json) list" where
  "example_properties =
     [(''http://blgx.example.net/ns/version'', JString ''1.3''),
      (''http://blgx.example.net/ns/ext'', JNull)]"

definition example_pre :: "(string \<times> json) list" where
  "example_pre =
     [(''subject'', JString ''http://blog.example.com/article/id/314''),
      (''expires'', JString ''2010-01-30T09:30:00Z''),
      (''aliases'', JArray [JString ''http://blog.example.com/cool_new_thing'',
                            JString ''http://blog.example.com/steve/article/7''])]"

definition example_post :: "(string \<times> json) list" where
  "example_post =
     [(''links'', JArray
        [JObject [(''rel'', JString ''author''),
                  (''type'', JString ''text/html''),
                  (''href'', JString ''http://blog.example.com/author/steve''),
                  (''titles'', JObject [(''default'', JString ''About the Author''),
                                        (''en-us'', JString ''Author Information'')]),
                  (''properties'', JObject [(''http://example.com/role'', JString ''editor'')])],
         JObject [(''rel'', JString ''author''),
                  (''href'', JString ''http://example.com/author/john''),
                  (''titles'', JObject [(''default'', JString ''The other author'')])],
         JObject [(''rel'', JString ''copyright''),
                  (''template'', JString ''http://example.com/copyright?id={uri}'')]])]"

definition example_json :: json where
  "example_json = JObject (example_pre @ (''properties'', JObject example_properties) # example_post)"

definition example_links :: "Link list" where
  "example_links =
     [Link0\<lparr>link_rel := ''author'', link_type := Some ''text/html'',
        link_href := Some ''http://blog.example.com/author/steve'',
        link_titles := [''default'' \<mapsto> ''About the Author'', ''en-us'' \<mapsto> ''Author Information''],
        link_properties := [''http://example.com/role'' \<mapsto> Some ''editor'']\<rparr>,
      Link0\<lparr>link_rel := ''author'', link_href := Some ''http://example.com/author/john'',
        link_titles := [''default'' \<mapsto> ''The other author'']\<rparr>,
      Link0\<lparr>link_rel := ''copyright'',
        link_template := Some ''http://example.com/copyright?id={uri}''\<rparr>]"

section \<open>Properties of the string functions\<close>

lemma SplitN_2:
  "SplitN s sep 2 =
     (if sep \<in> set s
      then [takeWhile (\<lambda>c. c \<noteq> sep) s, tl (dropWhile (\<lambda>c. c \<noteq> sep) s)]
      else [s])"
  by (simp add: numeral_2_eq_2)

lemma split_at_first:
  assumes "sep \<in> set s"
  shows "s = takeWhile (\<lambda>c. c \<noteq> sep) s @ sep # tl (dropWhile (\<lambda>c. c \<noteq> sep) s)"
proof -
  from assms have "dropWhile (\<lambda>c. c \<noteq> sep) s \<noteq> []"
    by simp
  moreover from assms have "hd (dropWhile (\<lambda>c. c \<noteq> sep) s) = sep"
    using hd_dropWhile [of "\<lambda>c. c \<noteq> sep" s] by simp
  ultimately have "dropWhile (\<lambda>c. c \<noteq> sep) s = sep # tl (dropWhile (\<lambda>c. c \<noteq> sep) s)"
    by (metis list.collapse)
  then show ?thesis
    by (metis takeWhile_dropWhile_id)
qed

lemma first_split_unique:
  assumes "s = a @ sep # b" and "sep \<notin> set a"
  shows "takeWhile (\<lambda>c. c \<noteq> sep) s = a" and "tl (dropWhile (\<lambda>c. c \<noteq> sep) s) = b"
proof -
  from assms have all: "\<And>x. x \<in> set a \<Longrightarrow> x \<noteq> sep"
    by auto
  from assms(1) all show "takeWhile (\<lambda>c. c \<noteq> sep) s = a"
    by (simp add: takeWhile_append2)
  from assms(1) all have "dropWhile (\<lambda>c. c \<noteq> sep) s = sep # b"
    by (simp add: dropWhile_append2)
  then show "tl (dropWhile (\<lambda>c. c \<noteq> sep) s) = b"
    by simp
qed

section \<open>The descriptor document: the claims\<close>

lemma scanLinks_first:
  "(\<forall>x \<in> set pre. link_rel x \<noteq> rel) \<Longrightarrow> link_rel l = rel
    \<Longrightarrow> scanLinks (pre @ l # post) rel = Some l"
  by (induction pre) auto

lemma scanLinks_None: "(scanLinks ls rel = None) = (\<forall>x \<in> set ls. link_rel x \<noteq> rel)"
  by (induction ls) auto

lemma scanLinks_Some:
  "scanLinks ls rel = Some l
    \<Longrightarrow> \<exists>pre post. ls = pre @ l # post \<and> link_rel l = rel \<and> (\<forall>x \<in> set pre. link_rel x \<noteq> rel)"
proof (induction ls)
  case Nil
  then show ?case by simp
next
  case (Cons a ls)
  show ?case
  proof (cases "link_rel a = rel")
    case True
    with Cons.prems have "a = l" by simp
    with True have "a # ls = [] @ l # ls \<and> link_rel l = rel \<and> (\<forall>x \<in> set []. link_rel x \<noteq> rel)"
      by simp
    then show ?thesis by blast
  next
    case False
    with Cons.prems have "scanLinks ls rel = Some l" by simp
    from Cons.IH [OF this] obtain pre post where
      p: "ls = pre @ l # post" "link_rel l = rel" "\<forall>x \<in> set pre. link_rel x \<noteq> rel"
      by blast
    with False have "a # ls = (a # pre) @ l # post \<and> link_rel l = rel
        \<and> (\<forall>x \<in> set (a # pre). link_rel x \<noteq> rel)"
      by simp
    then show ?thesis by blast
  qed
qed

lemma decode_example_links:
  "\<exists>d. decode Some example_json = Inr d \<and> links d = example_links"
  by (simp add: decode_def example_json_def example_pre_def example_post_def
      example_properties_def example_links_def JRD0_def Link0_def)


text \<open>
  Claim C3. \<open>GetLinkByRel\<close> returns the first Link, in document order, whose \<open>rel\<close>
  equals the argument: for a document whose links are \<open>pre @ l # post\<close> with no match in
  \<open>pre\<close> and a match at \<open>l\<close> the result is \<open>l\<close>, whatever \<open>post\<close> holds, further matches
  included. The result is absent exactly when no Link matches, and a Link that is
  returned is always such a first match.
\<close>

theorem GetLinkByRel_first_match:
  "(links doc = pre @ l # post \<and> link_rel l = rel \<and> (\<forall>x \<in> set pre. link_rel x \<noteq> rel)
      \<longrightarrow> GetLinkByRel doc rel = Some l)
   \<and> ((\<forall>x \<in> set (links doc). link_rel x \<noteq> rel) \<longrightarrow> GetLinkByRel doc rel = None)
   \<and> (GetLinkByRel doc rel = Some l'
      \<longrightarrow> (\<exists>pre' post'. links doc = pre' @ l' # post' \<and> link_rel l' = rel
             \<and> (\<forall>x \<in> set pre'. link_rel x \<noteq> rel)))
   \<and> (GetLinkByRel doc rel = None \<longrightarrow> (\<forall>x \<in> set (links doc). link_rel x \<noteq> rel))"
  using scanLinks_first [of pre rel l post] scanLinks_None [of "links doc" rel]
    scanLinks_Some [of "links doc" rel l']
  by (auto simp add: GetLinkByRel_def)


text \<open>On the document of the test, whose first two links both have \<open>rel\<close> \<open>author\<close>.\<close>

theorem GetLinkByRel_first_match_witness:
  "\<exists>d. decode Some example_json = Inr d
     \<and> GetLinkByRel d ''author'' = Some (example_links ! 0)
     \<and> GetLinkByRel d ''copyright'' = Some (example_links ! 2)
     \<and> GetLinkByRel d ''does-not-exist'' = None"
proof -
  obtain d where d: "decode Some example_json = Inr d" "links d = example_links"
    using decode_example_links by blast
  have "GetLinkByRel d ''author'' = Some (example_links ! 0)"
    using GetLinkByRel_first_match
      [of d "[]" "example_links ! 0" "[example_links ! 1, example_links ! 2]" "''author''"] d(2)
    by (simp add: example_links_def Link0_def)
  moreover have "GetLinkByRel d ''copyright'' = Some (example_links ! 2)"
    using GetLinkByRel_first_match
      [of d "[example_links ! 0, example_links ! 1]" "example_links ! 2" "[]" "''copyright''"] d(2)
    by (simp add: example_links_def Link0_def)
  moreover have "GetLinkByRel d ''does-not-exist'' = None"
    using GetLinkByRel_first_match [of d "[]" "example_links ! 0" "[]" "''does-not-exist''"] d(2)
    by (simp add: example_links_def Link0_def)
  ultimately show ?thesis
    using d(1) by blast
qed












section \<open>Host resolution: the claim\<close>

text \<open>
  Claim C1. A Resource with a non-empty host gives that host unchanged. With an empty host
  and scheme \<open>acct\<close> or \<open>mailto\<close>, an opaque part \<open>local @ host\<close> whose \<open>local\<close> holds no
  \<open>@\<close> gives \<open>host\<close>, all the text after the first \<open>@\<close>, further \<open>@\<close> included. Every
  other Resource gives the empty string; the function is total, so it never fails. The
  two literal cases of the specification are the last two conjuncts.
\<close>

theorem WebFingerHost_rule:
  "(Host r \<noteq> [] \<longrightarrow> WebFingerHost r = Host r)
   \<and> (Host r = [] \<and> (Scheme r = ''acct'' \<or> Scheme r = ''mailto'')
        \<and> Opaque r = local @ CHR ''@'' # rest \<and> CHR ''@'' \<notin> set local
        \<longrightarrow> WebFingerHost r = rest)
   \<and> (Host r = [] \<and> (Scheme r = ''acct'' \<or> Scheme r = ''mailto'')
        \<and> CHR ''@'' \<in> set (Opaque r)
        \<longrightarrow> WebFingerHost r = tl (dropWhile (\<lambda>c. c \<noteq> CHR ''@'') (Opaque r)))
   \<and> (Host r = [] \<and> \<not> ((Scheme r = ''acct'' \<or> Scheme r = ''mailto'')
        \<and> CHR ''@'' \<in> set (Opaque r))
        \<longrightarrow> WebFingerHost r = [])
   \<and> WebFingerHost (URL0\<lparr>Scheme := ''acct'', Opaque := ''bob@example.com''\<rparr>)
        = ''example.com''
   \<and> WebFingerHost
        (URL0\<lparr>Scheme := ''acct'', Opaque := ''juliet%40capulet.example@shoppingsite.example''\<rparr>)
        = ''shoppingsite.example''"
proof (intro conjI impI)
  assume "Host r \<noteq> []"
  then show "WebFingerHost r = Host r"
    by (simp add: WebFingerHost_def)
next
  assume a: "Host r = [] \<and> (Scheme r = ''acct'' \<or> Scheme r = ''mailto'')
    \<and> Opaque r = local @ CHR ''@'' # rest \<and> CHR ''@'' \<notin> set local"
  then have "tl (dropWhile (\<lambda>c. c \<noteq> CHR ''@'') (Opaque r)) = rest"
    using first_split_unique(2) [of "Opaque r" local "CHR ''@''" rest] by simp
  moreover from a have "CHR ''@'' \<in> set (Opaque r)"
    by simp
  ultimately show "WebFingerHost r = rest"
    using a by (auto simp add: WebFingerHost_def SplitN_2 Let_def)
next
  assume "Host r = [] \<and> (Scheme r = ''acct'' \<or> Scheme r = ''mailto'')
    \<and> CHR ''@'' \<in> set (Opaque r)"
  then show "WebFingerHost r = tl (dropWhile (\<lambda>c. c \<noteq> CHR ''@'') (Opaque r))"
    by (auto simp add: WebFingerHost_def SplitN_2 Let_def)
next
  assume "Host r = [] \<and> \<not> ((Scheme r = ''acct'' \<or> Scheme r = ''mailto'')
    \<and> CHR ''@'' \<in> set (Opaque r))"
  then show "WebFingerHost r = []"
    by (auto simp add: WebFingerHost_def SplitN_2 Let_def)
next
  show "WebFingerHost (URL0\<lparr>Scheme := ''acct'', Opaque := ''bob@example.com''\<rparr>)
    = ''example.com''"
    by (simp add: WebFingerHost_def SplitN_2 URL0_def)
next
  show "WebFingerHost
    (URL0\<lparr>Scheme := ''acct'', Opaque := ''juliet%40capulet.example@shoppingsite.example''\<rparr>)
    = ''shoppingsite.example''"
    by (simp add: WebFingerHost_def SplitN_2 URL0_def)
qed

text \<open>The rule at concrete Resources: a host, an \<open>acct\<close> opaque part with two \<open>@\<close>, and a
  \<open>file\<close> URL with neither.\<close>

theorem WebFingerHost_rule_witness:
  "WebFingerHost (URL0\<lparr>Scheme := ''http'', Host := ''example.com'', Path := ''/''\<rparr>)
     = ''example.com''
   \<and> WebFingerHost (URL0\<lparr>Scheme := ''acct'', Opaque := ''a@b@c''\<rparr>) = ''b@c''
   \<and> WebFingerHost (URL0\<lparr>Scheme := ''mailto'', Opaque := ''bob@example.com''\<rparr>)
     = ''example.com''
   \<and> WebFingerHost (URL0\<lparr>Scheme := ''file'', Path := ''/example''\<rparr>) = []"
proof (intro conjI)
  show "WebFingerHost (URL0\<lparr>Scheme := ''http'', Host := ''example.com'', Path := ''/''\<rparr>)
     = ''example.com''"
    using WebFingerHost_rule
      [of "URL0\<lparr>Scheme := ''http'', Host := ''example.com'', Path := ''/''\<rparr>" "[]" "[]"]
    by (simp add: URL0_def)
  show "WebFingerHost (URL0\<lparr>Scheme := ''acct'', Opaque := ''a@b@c''\<rparr>) = ''b@c''"
    using WebFingerHost_rule [of "URL0\<lparr>Scheme := ''acct'', Opaque := ''a@b@c''\<rparr>" "''a''" "''b@c''"]
    by (simp add: URL0_def)
  show "WebFingerHost (URL0\<lparr>Scheme := ''mailto'', Opaque := ''bob@example.com''\<rparr>)
     = ''example.com''"
    using WebFingerHost_rule
      [of "URL0\<lparr>Scheme := ''mailto'', Opaque := ''bob@example.com''\<rparr>" "''bob''" "''example.com''"]
    by (simp add: URL0_def)
  show "WebFingerHost (URL0\<lparr>Scheme := ''file'', Path := ''/example''\<rparr>) = []"
    using WebFingerHost_rule [of "URL0\<lparr>Scheme := ''file'', Path := ''/example''\<rparr>" "[]" "[]"]
    by (simp add: URL0_def)
qed

end
